theory Spec2Isabelle
  imports Main "HOL-Library.Sublist" "HOL-Library.AList"
begin

section \<open>The tool module of mcp-telegram (tools.py)\<close>

text \<open>
  The module declares three argument classes (ListDialogs, ListMessages,
  SearchHashtags), registers one asynchronous handler per class with a
  \<^verbatim>\<open>functools.singledispatch\<close> function, and derives tool descriptors from the
  classes. The handlers talk to Telegram through a client obtained from
  \<^verbatim>\<open>create_client\<close>. Everything outside the module (the Telegram client, the
  constructor of \<^verbatim>\<open>TextContent\<close>, the file system, \<^verbatim>\<open>str.lower\<close>) is a
  field of the record \<open>env\<close>: a test double that fixes what each outside call
  answers. A handler is a function from that record, its arguments and the
  state of the world to a result (an exception or the returned sequence) and the
  new state of the world.
\<close>

subsection \<open>Exceptions\<close>

datatype py_error =
    ValueError string
  | TypeError string
  | UnboundLocalError string
  | KeyError string
  | NotImplementedError string
  | AttributeError string
  | ValidationError string
  | OSError string
  | RPCError string
  | ConnectionError string
  | CancelledError

text \<open>
  \<^verbatim>\<open>except Exception\<close> catches the subclasses of \<^verbatim>\<open>Exception\<close>.
  \<^verbatim>\<open>asyncio.CancelledError\<close> derives from \<^verbatim>\<open>BaseException\<close> only.
\<close>

fun is_Exception :: "py_error \<Rightarrow> bool" where
  "is_Exception CancelledError = False"
| "is_Exception _ = True"

text \<open>
  \<^verbatim>\<open>str(e)\<close>: the message the exception carries. A \<^verbatim>\<open>KeyError\<close> carries
  the missing key, and its \<^verbatim>\<open>str\<close> is the \<^verbatim>\<open>repr\<close> of the key: a plain string
  between quotes.
\<close>

fun str_error :: "py_error \<Rightarrow> string" where
  "str_error (ValueError m) = m"
| "str_error (TypeError m) = m"
| "str_error (UnboundLocalError m) = m"
| "str_error (KeyError k) = [CHR 0x27] @ k @ [CHR 0x27]"
| "str_error (NotImplementedError m) = m"
| "str_error (AttributeError m) = m"
| "str_error (ValidationError m) = m"
| "str_error (OSError m) = m"
| "str_error (RPCError m) = m"
| "str_error (ConnectionError m) = m"
| "str_error CancelledError = []"

subsection \<open>Strings\<close>

text \<open>\<^verbatim>\<open>str(n)\<close> for an integer, as an f-string renders it.\<close>

definition digit_char :: "nat \<Rightarrow> char" where
  "digit_char d = ''0123456789'' ! d"

fun str_nat :: "nat \<Rightarrow> string" where
  "str_nat n = (if n < 10 then [digit_char n] else str_nat (n div 10) @ [digit_char (n mod 10)])"

declare str_nat.simps [simp del]

definition str_int :: "int \<Rightarrow> string" where
  "str_int i = (if i < 0 then CHR ''-'' # str_nat (nat (- i)) else str_nat (nat i))"

text \<open>An optional value inside an f-string: \<^verbatim>\<open>None\<close> is rendered as its name.\<close>

definition str_opt :: "('a \<Rightarrow> string) \<Rightarrow> 'a option \<Rightarrow> string" where
  "str_opt f v = (case v of None \<Rightarrow> ''None'' | Some x \<Rightarrow> f x)"

text \<open>\<^verbatim>\<open>sep.join(xs)\<close>.\<close>

fun join :: "string \<Rightarrow> string list \<Rightarrow> string" where
  "join sep [] = []"
| "join sep [x] = x"
| "join sep (x # y # ys) = x @ sep @ join sep (y # ys)"

text \<open>\<^verbatim>\<open>needle in haystack\<close> on strings.\<close>

fun contains :: "string \<Rightarrow> string \<Rightarrow> bool" where
  "contains needle [] = (needle = [])"
| "contains needle (c # cs) = (prefix needle (c # cs) \<or> contains needle cs)"

text \<open>The truth value of an optional string: \<^verbatim>\<open>None\<close> and the empty string are false.\<close>

definition truthy :: "string option \<Rightarrow> bool" where
  "truthy s = (case s of None \<Rightarrow> False | Some t \<Rightarrow> t \<noteq> [])"

subsection \<open>Values of the remote service\<close>

text \<open>\<^verbatim>\<open>telethon.custom.Dialog\<close>, as \<^verbatim>\<open>iter_dialogs\<close> yields it.\<close>

record dialog =
  d_name :: string
  d_id :: int
  d_unread_count :: int
  d_unread_mentions_count :: int

text \<open>\<^verbatim>\<open>telethon.types.Dialog\<close>, an element of \<^verbatim>\<open>PeerDialogs.dialogs\<close>.\<close>

record tl_dialog =
  tl_peer :: int
  tl_unread_count :: int

text \<open>
  A message as an iteration yields it. \<open>m_is_Message\<close> is
  \<^verbatim>\<open>isinstance(message, custom.Message)\<close>; \<open>m_date\<close> is
  \<^verbatim>\<open>message.date.isoformat()\<close> when the message has a date; \<open>m_sender\<close> is
  \<^verbatim>\<open>None\<close> or the sender with its optional username.
\<close>

record message =
  m_is_Message :: bool
  m_text :: "string option"
  m_date :: "string option"
  m_sender_id :: "int option"
  m_sender :: "string option option"

text \<open>What \<^verbatim>\<open>await client(GetPeerDialogsRequest(...))\<close> evaluates to.\<close>

datatype request_result =
    NoneResult
  | PeerDialogs "tl_dialog list" "message list"
  | OtherResult string

datatype entity = Entity int

datatype py_value = PInt int | PBool bool | PStr string | PEntity entity

type_synonym kwargs = "(string \<times> py_value) list"

text \<open>\<^verbatim>\<open>mcp.types.TextContent\<close>: the two fields the module sets.\<close>

record text_content =
  tc_type :: string
  tc_text :: string

subsection \<open>The outside of the module\<close>

text \<open>One row of the export of \<^verbatim>\<open>search_hashtags\<close>.\<close>

record row =
  r_date :: string
  r_user_id :: "int option"
  r_username :: "string option"
  r_message :: string
  r_hashtag :: string

datatype file_body = CsvBody "string list" "row list" | TxtBody string

text \<open>
  The test double. An iteration answers with the items it yields and, when it
  fails after them, the exception. \<open>TextContent\<close> is the constructor of the
  library, called with the optional keyword \<^verbatim>\<open>type\<close> and the keyword
  \<^verbatim>\<open>text\<close>.

  \<^verbatim>\<open>create_client\<close> comes from the module \<^verbatim>\<open>.telegram\<close> and is used in two
  ways, which the double answers separately: \<open>create_client\<close> is the entry of
  \<^verbatim>\<open>async with create_client() as client\<close> and \<open>create_client_awaited\<close> is
  \<^verbatim>\<open>await create_client()\<close>. Each answers \<open>None\<close> when it hands out an open
  session and the exception when it raises.
\<close>

record env =
  create_client :: "py_error option"
  create_client_awaited :: "py_error option"
  iter_dialogs :: "bool \<Rightarrow> bool \<Rightarrow> dialog list \<times> py_error option"
  GetPeerDialogsRequest :: "int list \<Rightarrow> py_error + request_result"
  iter_messages :: "kwargs \<Rightarrow> message list \<times> py_error option"
  get_entity :: "int \<Rightarrow> py_error + entity"
  TextContent :: "string option \<Rightarrow> string \<Rightarrow> py_error + text_content"
  open_w :: "string \<Rightarrow> py_error option"
  lower :: "string \<Rightarrow> string"

datatype remote_call =
    IterDialogsCall bool bool
  | GetPeerDialogsCall "int list"
  | IterMessagesCall kwargs
  | GetEntityCall int

text \<open>
  The world a handler changes: how many sessions were opened and closed, the
  calls the remote service received, the files written.
\<close>

record world =
  acquired :: nat
  released :: nat
  calls :: "remote_call list"
  files :: "(string \<times> file_body) list"

type_synonym 'a outcome = "(py_error + 'a) \<times> world"

definition acquire :: "world \<Rightarrow> world" where
  "acquire w = w\<lparr>acquired := Suc (acquired w)\<rparr>"

definition release :: "world \<Rightarrow> world" where
  "release w = w\<lparr>released := Suc (released w)\<rparr>"

definition record_call :: "remote_call \<Rightarrow> world \<Rightarrow> world" where
  "record_call c w = w\<lparr>calls := calls w @ [c]\<rparr>"

text \<open>
  An asynchronous iteration that yielded its items and then either ended or
  raised: the exception of the loop body comes first, then the iteration's.
\<close>

definition after_iteration :: "py_error + 'a \<Rightarrow> py_error option \<Rightarrow> py_error + 'a" where
  "after_iteration body err =
     (case body of
        Inl e \<Rightarrow> Inl e
      | Inr r \<Rightarrow> (case err of Some e \<Rightarrow> Inl e | None \<Rightarrow> Inr r))"

subsection \<open>ListDialogs\<close>

record list_dialogs_args =
  ld_unread :: bool
  ld_archived :: bool
  ld_ignore_pinned :: bool

definition dialog_line :: "dialog \<Rightarrow> string" where
  "dialog_line d =
     ''name='' @ [CHR 0x27] @ d_name d @ [CHR 0x27] @ '' id='' @ str_int (d_id d) @
     '' unread='' @ str_int (d_unread_count d) @
     '' mentions='' @ str_int (d_unread_mentions_count d)"

text \<open>The body of the \<^verbatim>\<open>async for\<close> of \<^verbatim>\<open>list_dialogs\<close>, item by item.\<close>

fun list_dialogs_loop ::
  "env \<Rightarrow> list_dialogs_args \<Rightarrow> dialog list \<Rightarrow> text_content list \<Rightarrow> py_error + text_content list"
where
  "list_dialogs_loop tg args [] response = Inr response"
| "list_dialogs_loop tg args (d # ds) response =
     (if ld_unread args \<and> d_unread_count d = 0 then list_dialogs_loop tg args ds response
      else (case TextContent tg (Some ''text'') (dialog_line d) of
              Inl e \<Rightarrow> Inl e
            | Inr c \<Rightarrow> list_dialogs_loop tg args ds (response @ [c])))"

text \<open>
  \<^verbatim>\<open>async with create_client() as client\<close>: the session is opened on entry
  and closed on every exit of the block.
\<close>

definition list_dialogs :: "env \<Rightarrow> list_dialogs_args \<Rightarrow> world \<Rightarrow> text_content list outcome" where
  "list_dialogs tg args w =
     (case create_client tg of
        Some e \<Rightarrow> (Inl e, w)
      | None \<Rightarrow>
          (let w1 = record_call (IterDialogsCall (ld_archived args) (ld_ignore_pinned args)) (acquire w);
               (ds, err) = iter_dialogs tg (ld_archived args) (ld_ignore_pinned args)
           in (after_iteration (list_dialogs_loop tg args ds []) err, release w1)))"

subsection \<open>ListMessages\<close>

record list_messages_args =
  lm_dialog_id :: int
  lm_unread :: bool
  lm_limit :: int

text \<open>
  The value of a loop variable after \<^verbatim>\<open>for x in xs\<close>: the last element, and
  what the variable held before when the sequence is empty. \<open>None\<close> is a local
  variable that was never assigned.
\<close>

fun for_variable :: "'a option \<Rightarrow> 'a list \<Rightarrow> 'a option" where
  "for_variable v [] = v"
| "for_variable v (x # xs) = for_variable (Some x) xs"

text \<open>
  The keyword arguments of \<^verbatim>\<open>client.iter_messages\<close>. Reading the unassigned
  local \<^verbatim>\<open>dialog\<close> raises \<^verbatim>\<open>UnboundLocalError\<close>.
\<close>

definition iter_messages_args :: "list_messages_args \<Rightarrow> tl_dialog option \<Rightarrow> py_error + kwargs" where
  "iter_messages_args args dialog =
     (let kw = [(''entity'', PInt (lm_dialog_id args)), (''reverse'', PBool False)]
      in if lm_unread args then
           (case dialog of
              None \<Rightarrow> Inl (UnboundLocalError
                ''cannot access local variable 'dialog' where it is not associated with a value'')
            | Some d \<Rightarrow> Inr (AList.update ''limit'' (PInt (min (tl_unread_count d) (lm_limit args))) kw))
         else Inr (AList.update ''limit'' (PInt (lm_limit args)) kw))"

text \<open>The body of the \<^verbatim>\<open>async for\<close> of \<^verbatim>\<open>list_messages\<close>.\<close>

fun list_messages_loop ::
  "env \<Rightarrow> message list \<Rightarrow> text_content list \<Rightarrow> py_error + text_content list"
where
  "list_messages_loop tg [] response = Inr response"
| "list_messages_loop tg (m # ms) response =
     (if m_is_Message m \<and> truthy (m_text m) then
        (case TextContent tg (Some ''text'') (the (m_text m)) of
           Inl e \<Rightarrow> Inl e
         | Inr c \<Rightarrow> list_messages_loop tg ms (response @ [c]))
      else list_messages_loop tg ms response)"

text \<open>The block under \<^verbatim>\<open>async with\<close>, the session being open.\<close>

definition list_messages_block :: "env \<Rightarrow> list_messages_args \<Rightarrow> world \<Rightarrow> text_content list outcome" where
  "list_messages_block tg args w =
     (let w1 = record_call (GetPeerDialogsCall [lm_dialog_id args]) w
      in case GetPeerDialogsRequest tg [lm_dialog_id args] of
           Inl e \<Rightarrow> (Inl e, w1)
         | Inr NoneResult \<Rightarrow>
             (Inl (ValueError (''Channel not found: '' @ str_int (lm_dialog_id args))), w1)
         | Inr (OtherResult ty) \<Rightarrow> (Inl (TypeError (''Unexpected result: '' @ ty)), w1)
         | Inr (PeerDialogs dialogs messages) \<Rightarrow>
             (case iter_messages_args args (for_variable None dialogs) of
                Inl e \<Rightarrow> (Inl e, w1)
              | Inr kw \<Rightarrow>
                  (let w2 = record_call (IterMessagesCall kw) w1;
                       (ms, err) = iter_messages tg kw
                   in (after_iteration (list_messages_loop tg ms []) err, w2))))"

definition list_messages :: "env \<Rightarrow> list_messages_args \<Rightarrow> world \<Rightarrow> text_content list outcome" where
  "list_messages tg args w =
     (case create_client tg of
        Some e \<Rightarrow> (Inl e, w)
      | None \<Rightarrow>
          (let (r, w1) = list_messages_block tg args (acquire w)
           in (r, release w1)))"

subsection \<open>SearchHashtags\<close>

record search_hashtags_args =
  sh_group_id :: int
  sh_hashtags :: "string list"
  sh_output_format :: string
  sh_output_file :: string
  sh_api_id :: int
  sh_api_hash :: string

text \<open>
  One message of the search: the first hashtag found in the text gives a row;
  \<^verbatim>\<open>message.date.isoformat()\<close> is evaluated first and raises on a message
  without date.
\<close>

definition hashtag_row :: "env \<Rightarrow> string list \<Rightarrow> message \<Rightarrow> py_error + row option" where
  "hashtag_row tg hashtags m =
     (if truthy (m_text m) then
        (case find (\<lambda>h. contains (lower tg h) (lower tg (the (m_text m)))) hashtags of
           None \<Rightarrow> Inr None
         | Some h \<Rightarrow>
             (case m_date m of
                None \<Rightarrow> Inl (AttributeError
                  ([CHR 0x27] @ ''NoneType'' @ [CHR 0x27] @ '' object has no attribute '' @
                   [CHR 0x27] @ ''isoformat'' @ [CHR 0x27]))
              | Some d \<Rightarrow>
                  Inr (Some \<lparr>r_date = d, r_user_id = m_sender_id m,
                             r_username = (case m_sender m of None \<Rightarrow> Some ''Unknown'' | Some u \<Rightarrow> u),
                             r_message = the (m_text m), r_hashtag = h\<rparr>)))
      else Inr None)"

fun search_loop ::
  "env \<Rightarrow> string list \<Rightarrow> message list \<Rightarrow> row list \<times> nat \<Rightarrow> py_error + row list \<times> nat"
where
  "search_loop tg hashtags [] acc = Inr acc"
| "search_loop tg hashtags (m # ms) (messages, total_count) =
     (case hashtag_row tg hashtags m of
        Inl e \<Rightarrow> Inl e
      | Inr None \<Rightarrow> search_loop tg hashtags ms (messages, total_count)
      | Inr (Some r) \<Rightarrow> search_loop tg hashtags ms (messages @ [r], total_count + 1))"

definition txt_entry :: "row \<Rightarrow> string" where
  "txt_entry msg =
     ''Date: '' @ r_date msg @ [CHR 0x0A] @
     ''User: '' @ str_opt id (r_username msg) @ '' (ID: '' @ str_opt str_int (r_user_id msg) @ '')'' @ [CHR 0x0A] @
     ''Message: '' @ r_message msg @ [CHR 0x0A] @
     ''Hashtag: '' @ r_hashtag msg @ [CHR 0x0A] @
     replicate 50 CHR ''-'' @ [CHR 0x0A]"

text \<open>The export: the file is opened for writing, which may fail, then written.\<close>

definition export_results :: "env \<Rightarrow> search_hashtags_args \<Rightarrow> row list \<Rightarrow> world \<Rightarrow> unit outcome" where
  "export_results tg args messages w =
     (if sh_output_format args = ''csv'' then
        (case open_w tg (sh_output_file args @ ''.csv'') of
           Some e \<Rightarrow> (Inl e, w)
         | None \<Rightarrow>
             (Inr (), w\<lparr>files := files w @
                [(sh_output_file args @ ''.csv'',
                  CsvBody [''date'', ''user_id'', ''username'', ''message'', ''hashtag''] messages)]\<rparr>))
      else
        (case open_w tg (sh_output_file args @ ''.txt'') of
           Some e \<Rightarrow> (Inl e, w)
         | None \<Rightarrow>
             (Inr (), w\<lparr>files := files w @
                [(sh_output_file args @ ''.txt'', TxtBody (concat (map txt_entry messages)))]\<rparr>)))"

definition success_text :: "search_hashtags_args \<Rightarrow> nat \<Rightarrow> string" where
  "success_text args total_count =
     ''Successfully exported '' @ str_nat total_count @ '' messages with hashtags '' @
     join '', '' (sh_hashtags args) @ '' to '' @ sh_output_file args @ ''.'' @ sh_output_format args"

text \<open>
  The \<^verbatim>\<open>try\<close> block. The session is opened by \<^verbatim>\<open>await create_client()\<close>
  and closed by \<^verbatim>\<open>await client.disconnect()\<close>, the statement before the
  \<^verbatim>\<open>return\<close>; the returned item is built without the keyword \<^verbatim>\<open>type\<close>.
\<close>

definition search_hashtags_try :: "env \<Rightarrow> search_hashtags_args \<Rightarrow> world \<Rightarrow> text_content list outcome" where
  "search_hashtags_try tg args w =
     (case create_client_awaited tg of
        Some e \<Rightarrow> (Inl e, w)
      | None \<Rightarrow>
          (let w1 = record_call (GetEntityCall (sh_group_id args)) (acquire w)
           in case get_entity tg (sh_group_id args) of
                Inl e \<Rightarrow> (Inl e, w1)
              | Inr the_group \<Rightarrow>
                  (let w2 = record_call (IterMessagesCall [(''entity'', PEntity the_group)]) w1;
                       (ms, err) = iter_messages tg [(''entity'', PEntity the_group)]
                   in case after_iteration (search_loop tg (sh_hashtags args) ms ([], 0)) err of
                        Inl e \<Rightarrow> (Inl e, w2)
                      | Inr (messages, total_count) \<Rightarrow>
                          (case export_results tg args messages w2 of
                             (Inl e, w3) \<Rightarrow> (Inl e, w3)
                           | (Inr u, w3) \<Rightarrow>
                               (case TextContent tg None (success_text args total_count) of
                                  Inl e \<Rightarrow> (Inl e, release w3)
                                | Inr c \<Rightarrow> (Inr [c], release w3))))))"

text \<open>
  \<^verbatim>\<open>except Exception as e\<close>: every exception of the block that derives from
  \<^verbatim>\<open>Exception\<close> is replaced by the one-item answer built from its message;
  the handler closes nothing there.
\<close>

definition search_hashtags :: "env \<Rightarrow> search_hashtags_args \<Rightarrow> world \<Rightarrow> text_content list outcome" where
  "search_hashtags tg args w =
     (case search_hashtags_try tg args w of
        (Inr r, w1) \<Rightarrow> (Inr r, w1)
      | (Inl e, w1) \<Rightarrow>
          (if is_Exception e then
             (case TextContent tg None (''Error searching hashtags: '' @ str_error e) of
                Inl e' \<Rightarrow> (Inl e', w1)
              | Inr c \<Rightarrow> (Inr [c], w1))
           else (Inl e, w1)))"

subsection \<open>Argument classes and tool descriptors\<close>

datatype py_type = TInt | TBool | TStr | TList py_type

text \<open>A field of a pydantic model: without default it is required.\<close>

record field =
  f_name :: string
  f_type :: py_type
  f_default :: "py_value option"

text \<open>
  A class: \<^verbatim>\<open>__name__\<close>, \<^verbatim>\<open>__doc__\<close> (\<^verbatim>\<open>None\<close> for a class without
  docstring) and the declared fields, from which pydantic derives
  \<^verbatim>\<open>model_json_schema()\<close>.
\<close>

record py_class =
  cls_name :: string
  cls_doc :: "string option"
  cls_fields :: "field list"

definition ToolArgs :: py_class where
  "ToolArgs = \<lparr>cls_name = ''ToolArgs'', cls_doc = None, cls_fields = []\<rparr>"

definition ListDialogs :: py_class where
  "ListDialogs =
     \<lparr>cls_name = ''ListDialogs'',
      cls_doc = Some ''List available dialogs, chats and channels.'',
      cls_fields =
        [\<lparr>f_name = ''unread'', f_type = TBool, f_default = Some (PBool False)\<rparr>,
         \<lparr>f_name = ''archived'', f_type = TBool, f_default = Some (PBool False)\<rparr>,
         \<lparr>f_name = ''ignore_pinned'', f_type = TBool, f_default = Some (PBool False)\<rparr>]\<rparr>"

definition ListMessages_doc :: string where
  "ListMessages_doc =
     [CHR 0x0A] @
     ''    List messages in a given dialog, chat or channel. The messages are listed in order from newest to oldest.'' @
     [CHR 0x0A, CHR 0x0A] @
     ''    If `unread` is set to `True`, only unread messages will be listed. Once a message is read, it will not be'' @
     [CHR 0x0A] @
     ''    listed again.'' @
     [CHR 0x0A, CHR 0x0A] @
     ''    If `limit` is set, only the last `limit` messages will be listed. If `unread` is set, the limit will be'' @
     [CHR 0x0A] @
     ''    the minimum between the unread messages and the limit.'' @
     [CHR 0x0A] @ ''    ''"

definition ListMessages :: py_class where
  "ListMessages =
     \<lparr>cls_name = ''ListMessages'',
      cls_doc = Some ListMessages_doc,
      cls_fields =
        [\<lparr>f_name = ''dialog_id'', f_type = TInt, f_default = None\<rparr>,
         \<lparr>f_name = ''unread'', f_type = TBool, f_default = Some (PBool False)\<rparr>,
         \<lparr>f_name = ''limit'', f_type = TInt, f_default = Some (PInt 100)\<rparr>]\<rparr>"

definition SearchHashtags :: py_class where
  "SearchHashtags =
     \<lparr>cls_name = ''SearchHashtags'',
      cls_doc = Some ''Search for specific hashtags in a Telegram group and export results to CSV.'',
      cls_fields =
        [\<lparr>f_name = ''group_id'', f_type = TInt, f_default = None\<rparr>,
         \<lparr>f_name = ''hashtags'', f_type = TList TStr, f_default = None\<rparr>,
         \<lparr>f_name = ''output_format'', f_type = TStr, f_default = Some (PStr ''csv'')\<rparr>,
         \<lparr>f_name = ''output_file'', f_type = TStr, f_default = Some (PStr ''hashtag_results'')\<rparr>,
         \<lparr>f_name = ''api_id'', f_type = TInt, f_default = None\<rparr>,
         \<lparr>f_name = ''api_hash'', f_type = TStr, f_default = None\<rparr>]\<rparr>"

text \<open>
  \<^verbatim>\<open>mcp.types.Tool\<close>. The description is optional in the library
  (\<^verbatim>\<open>str | None\<close>); the schema is represented by the fields it enumerates.
\<close>

record tool =
  name :: string
  description :: "string option"
  inputSchema :: "field list"

definition model_json_schema :: "py_class \<Rightarrow> field list" where
  "model_json_schema c = cls_fields c"

definition tool_description :: "py_class \<Rightarrow> tool" where
  "tool_description args =
     \<lparr>name = cls_name args, description = cls_doc args, inputSchema = model_json_schema args\<rparr>"

text \<open>
  The Telegram API credentials are the pair \<^verbatim>\<open>api_id\<close>, \<^verbatim>\<open>api_hash\<close>
  (the example of SearchHashtags gives a value for each).
\<close>

definition credential_field :: "string \<Rightarrow> bool" where
  "credential_field n = (n = ''api_id'' \<or> n = ''api_hash'')"

definition credential_fields :: "py_class \<Rightarrow> string list" where
  "credential_fields c = filter credential_field (map f_name (cls_fields c))"

subsection \<open>The registry of handlers\<close>

text \<open>
  A function object: its name and the annotation of its first parameter, which
  \<^verbatim>\<open>register\<close> used as a plain decorator reads. The parameter of the generic
  function \<^verbatim>\<open>tool_runner\<close> has none.
\<close>

record py_function =
  fn_name :: string
  fn_annotation :: "string option"

definition tool_runner_fn :: py_function where
  "tool_runner_fn = \<lparr>fn_name = ''tool_runner'', fn_annotation = None\<rparr>"

definition list_dialogs_fn :: py_function where
  "list_dialogs_fn = \<lparr>fn_name = ''list_dialogs'', fn_annotation = Some ''ListDialogs''\<rparr>"

definition list_messages_fn :: py_function where
  "list_messages_fn = \<lparr>fn_name = ''list_messages'', fn_annotation = Some ''ListMessages''\<rparr>"

definition search_hashtags_fn :: py_function where
  "search_hashtags_fn = \<lparr>fn_name = ''search_hashtags'', fn_annotation = Some ''SearchHashtags''\<rparr>"

type_synonym registry = "string \<rightharpoonup> py_function"

text \<open>\<^verbatim>\<open>@singledispatch\<close>: the registry starts with the function itself, bound to \<^verbatim>\<open>object\<close>.\<close>

definition singledispatch :: "py_function \<Rightarrow> registry" where
  "singledispatch func = [''object'' \<mapsto> func]"

text \<open>
  \<^verbatim>\<open>@tool_runner.register\<close>: the class is taken from the annotation, then
  \<^verbatim>\<open>registry[cls] = func\<close>. The library looks for no earlier binding.
\<close>

definition register :: "registry \<Rightarrow> py_function \<Rightarrow> py_error + registry" where
  "register reg func =
     (case fn_annotation func of
        None \<Rightarrow> Inl (TypeError ''Invalid first argument to `register()`'')
      | Some cls \<Rightarrow> Inr (reg(cls \<mapsto> func)))"

fun register_all :: "registry \<Rightarrow> py_function list \<Rightarrow> py_error + registry" where
  "register_all reg [] = Inr reg"
| "register_all reg (f # fs) =
     (case register reg f of Inl e \<Rightarrow> Inl e | Inr reg' \<Rightarrow> register_all reg' fs)"

text \<open>The registry when the module has been imported: the three decorators, in order.\<close>

definition tool_runner_registry :: "py_error + registry" where
  "tool_runner_registry =
     register_all (singledispatch tool_runner_fn)
       [list_dialogs_fn, list_messages_fn, search_hashtags_fn]"

text \<open>The classes registered with the dispatcher.\<close>

definition registered_classes :: "py_class list" where
  "registered_classes = [ListDialogs, ListMessages, SearchHashtags]"

subsection \<open>tool\_args\<close>

text \<open>The objects bound at module level, by kind.\<close>

datatype py_object =
    ClassObject string
  | FunctionObject string
  | ModuleObject string
  | OtherObject string

text \<open>
  \<^verbatim>\<open>sys.modules[__name__].__dict__\<close> after the import of the module: the
  names the module binds itself (the names every module has, such as
  \<^verbatim>\<open>__name__\<close>, come on top in an arbitrary namespace \<open>ns\<close>).
\<close>

definition module_dict :: "(string \<times> py_object) list" where
  "module_dict =
     [(''annotations'', OtherObject ''_Feature''),
      (''logging'', ModuleObject ''logging''),
      (''sys'', ModuleObject ''sys''),
      (''t'', ModuleObject ''typing''),
      (''singledispatch'', FunctionObject ''singledispatch''),
      (''EmbeddedResource'', ClassObject ''EmbeddedResource''),
      (''ImageContent'', ClassObject ''ImageContent''),
      (''TextContent'', ClassObject ''TextContent''),
      (''Tool'', ClassObject ''Tool''),
      (''BaseModel'', ClassObject ''BaseModel''),
      (''ConfigDict'', ClassObject ''ConfigDict''),
      (''TelegramClient'', ClassObject ''TelegramClient''),
      (''custom'', ModuleObject ''telethon.custom''),
      (''functions'', ModuleObject ''telethon.functions''),
      (''types'', ModuleObject ''telethon.types''),
      (''create_client'', FunctionObject ''create_client''),
      (''logger'', OtherObject ''Logger''),
      (''ToolArgs'', ClassObject ''ToolArgs''),
      (''tool_runner'', FunctionObject ''tool_runner''),
      (''tool_description'', FunctionObject ''tool_description''),
      (''tool_args'', FunctionObject ''tool_args''),
      (''ListDialogs'', ClassObject ''ListDialogs''),
      (''list_dialogs'', FunctionObject ''list_dialogs''),
      (''ListMessages'', ClassObject ''ListMessages''),
      (''list_messages'', FunctionObject ''list_messages''),
      (''SearchHashtags'', ClassObject ''SearchHashtags''),
      (''search_hashtags'', FunctionObject ''search_hashtags'')]"

text \<open>
  \<^verbatim>\<open>tool_args(tool, *args, **kwargs)\<close>: the name of the tool is looked up in
  the namespace \<open>ns\<close> of the module and the object found is called. \<open>call\<close>
  is Python's call of an object with the arguments; a missing key of a
  \<^verbatim>\<open>dict\<close> raises \<^verbatim>\<open>KeyError\<close>.
\<close>

definition tool_args ::
  "(py_object \<Rightarrow> 'a \<Rightarrow> py_error + 'b) \<Rightarrow> (string \<rightharpoonup> py_object) \<Rightarrow> tool \<Rightarrow> 'a \<Rightarrow> py_error + 'b"
where
  "tool_args call ns tool a =
     (case ns (name tool) of
        None \<Rightarrow> Inl (KeyError (name tool))
      | Some obj \<Rightarrow> call obj a)"

subsection \<open>Test doubles\<close>

text \<open>
  The constructor as the library declares it: \<^verbatim>\<open>type: Literal["text"]\<close>
  has no default, so a call without it is refused.
\<close>

definition mcp_TextContent :: "string option \<Rightarrow> string \<Rightarrow> py_error + text_content" where
  "mcp_TextContent ty txt =
     (case ty of
        None \<Rightarrow> Inl (ValidationError ''type: Field required'')
      | Some t \<Rightarrow>
          (if t = ''text'' then Inr \<lparr>tc_type = t, tc_text = txt\<rparr>
           else Inl (ValidationError ''type: Input should be text'')))"


text \<open>Three conversations with unread counts 0, 5 and 2.\<close>

definition double_dialogs :: "dialog list" where
  "double_dialogs =
     [\<lparr>d_name = ''alice'', d_id = 11, d_unread_count = 0, d_unread_mentions_count = 0\<rparr>,
      \<lparr>d_name = ''team'', d_id = - 1001, d_unread_count = 5, d_unread_mentions_count = 1\<rparr>,
      \<lparr>d_name = ''bob'', d_id = 42, d_unread_count = 2, d_unread_mentions_count = 0\<rparr>]"

text \<open>Four messages, newest first: a text, a photo without text, a service item, a text.\<close>

definition double_messages :: "message list" where
  "double_messages =
     [\<lparr>m_is_Message = True, m_text = Some ''hello #intro'', m_date = Some ''2024-05-02T10:00:00+00:00'',
       m_sender_id = Some 7, m_sender = Some (Some ''bob'')\<rparr>,
      \<lparr>m_is_Message = True, m_text = None, m_date = Some ''2024-05-02T09:00:00+00:00'',
       m_sender_id = Some 7, m_sender = Some (Some ''bob'')\<rparr>,
      \<lparr>m_is_Message = False, m_text = Some ''joined'', m_date = Some ''2024-05-01T12:00:00+00:00'',
       m_sender_id = None, m_sender = None\<rparr>,
      \<lparr>m_is_Message = True, m_text = Some ''first'', m_date = Some ''2024-05-01T08:00:00+00:00'',
       m_sender_id = Some 9, m_sender = Some None\<rparr>]"

text \<open>
  A remote service where every call succeeds: each peer asked for is reported
  with 3 unread messages, and an iteration with a limit yields at most that many
  messages.
\<close>

definition double :: env where
  "double =
     \<lparr>create_client = None,
      create_client_awaited = None,
      iter_dialogs = (\<lambda>archived ignore_pinned. (double_dialogs, None)),
      GetPeerDialogsRequest =
        (\<lambda>peers. Inr (PeerDialogs (map (\<lambda>p. \<lparr>tl_peer = p, tl_unread_count = 3\<rparr>) peers) [])),
      iter_messages =
        (\<lambda>kw. (case map_of kw ''limit'' of
                  Some (PInt n) \<Rightarrow> (take (nat n) double_messages, None)
                | _ \<Rightarrow> (double_messages, None))),
      get_entity = (\<lambda>i. Inr (Entity i)),
      TextContent = mcp_TextContent,
      open_w = (\<lambda>f. None),
      lower = (\<lambda>s. s)\<rparr>"

text \<open>The same service, on which the lookup of an entity fails.\<close>

definition double_no_entity :: env where
  "double_no_entity = double\<lparr>get_entity := (\<lambda>i. Inl (RPCError ''boom''))\<rparr>"


text \<open>The same service, answering with no dialog at all.\<close>

definition double_no_dialogs :: env where
  "double_no_dialogs = double\<lparr>GetPeerDialogsRequest := (\<lambda>peers. Inr (PeerDialogs [] []))\<rparr>"

text \<open>The same service, answering with the dialog asked for and then another one.\<close>

definition double_two_dialogs :: env where
  "double_two_dialogs =
     double\<lparr>GetPeerDialogsRequest :=
       (\<lambda>peers. Inr (PeerDialogs [\<lparr>tl_peer = 42, tl_unread_count = 3\<rparr>,
                                   \<lparr>tl_peer = 7, tl_unread_count = 1\<rparr>] []))\<rparr>"

definition world0 :: world where
  "world0 = \<lparr>acquired = 0, released = 0, calls = [], files = []\<rparr>"

definition args_ListDialogs :: list_dialogs_args where
  "args_ListDialogs = \<lparr>ld_unread = True, ld_archived = False, ld_ignore_pinned = False\<rparr>"

definition args_ListMessages :: list_messages_args where
  "args_ListMessages = \<lparr>lm_dialog_id = 42, lm_unread = True, lm_limit = 10\<rparr>"

text \<open>ListMessages with the defaults of the class.\<close>

definition args_ListMessages_all :: list_messages_args where
  "args_ListMessages_all = \<lparr>lm_dialog_id = 42, lm_unread = False, lm_limit = 100\<rparr>"

definition args_SearchHashtags :: search_hashtags_args where
  "args_SearchHashtags =
     \<lparr>sh_group_id = - 1001234567890, sh_hashtags = [''#intro'', ''#iam''],
      sh_output_format = ''csv'', sh_output_file = ''intro_messages'',
      sh_api_id = 26162406, sh_api_hash = ''7a005c82feee57d782a7e2f8399ddaf6''\<rparr>"

section \<open>Sessions opened and closed\<close>

text \<open>
  \<^verbatim>\<open>list_dialogs\<close> and \<^verbatim>\<open>list_messages\<close> close the session they opened on
  every path: the counters advance together, whatever the remote service answers.
\<close>

lemma list_dialogs_sessions:
  "acquired (snd (list_dialogs tg a w)) + released w =
   released (snd (list_dialogs tg a w)) + acquired w"
  by (simp add: list_dialogs_def acquire_def release_def record_call_def Let_def
           split: option.splits prod.splits)

lemma list_messages_block_sessions:
  "acquired (snd (list_messages_block tg a w)) = acquired w \<and>
   released (snd (list_messages_block tg a w)) = released w"
  by (simp add: list_messages_block_def record_call_def Let_def
           split: sum.splits request_result.splits prod.splits)

lemma list_messages_sessions:
  "acquired (snd (list_messages tg a w)) + released w =
   released (snd (list_messages tg a w)) + acquired w"
proof (cases "create_client tg")
  case None
  obtain r w1 where b: "list_messages_block tg a (acquire w) = (r, w1)"
    by (cases "list_messages_block tg a (acquire w)")
  from list_messages_block_sessions [of tg a "acquire w"] b
  have "acquired w1 = Suc (acquired w)" and "released w1 = released w"
    by (simp_all add: acquire_def)
  with None b show ?thesis
    by (simp add: list_messages_def release_def)
next
  case (Some e)
  then show ?thesis by (simp add: list_messages_def)
qed

text \<open>
  The \<^verbatim>\<open>except\<close> clause of \<^verbatim>\<open>search_hashtags\<close> leaves the world as the
  \<^verbatim>\<open>try\<close> block left it.
\<close>

lemma search_hashtags_world:
  "snd (search_hashtags tg a w) = snd (search_hashtags_try tg a w)"
  by (simp add: search_hashtags_def split: prod.splits sum.splits)

text \<open>
  When the lookup of the group fails, the session opened by
  \<^verbatim>\<open>search_hashtags\<close> stays open.
\<close>

lemma search_hashtags_leak:
  assumes "create_client_awaited tg = None" and "get_entity tg (sh_group_id a) = Inl e"
  shows "acquired (snd (search_hashtags tg a w)) = Suc (acquired w) \<and>
         released (snd (search_hashtags tg a w)) = released w"
  using assms
  by (simp add: search_hashtags_world search_hashtags_try_def acquire_def record_call_def Let_def)

text \<open>
  C1. Every invocation of a handler closes the session it opened, on every exit
  path. \<^verbatim>\<open>search_hashtags\<close> does not: on the service whose entity lookup
  raises, the invocation ends with one session opened and none closed.
\<close>

theorem search_hashtags_session_not_released:
  "create_client_awaited double_no_entity = None \<and>
   get_entity double_no_entity (sh_group_id args_SearchHashtags) = Inl (RPCError ''boom'') \<and>
   acquired (snd (search_hashtags double_no_entity args_SearchHashtags world0)) = 1 \<and>
   released (snd (search_hashtags double_no_entity args_SearchHashtags world0)) = 0"
proof -
  have c: "create_client_awaited double_no_entity = None"
    by (simp add: double_no_entity_def double_def)
  have g: "get_entity double_no_entity (sh_group_id args_SearchHashtags) = Inl (RPCError ''boom'')"
    by (simp add: double_no_entity_def)
  from search_hashtags_leak [OF c g, of world0] c g show ?thesis
    by (simp add: world0_def)
qed

section \<open>Where failures go\<close>












lemma list_messages_block_result:
  "fst (list_messages_block tg a w) = fst (list_messages_block tg a w')"
  by (simp add: list_messages_block_def Let_def
           split: sum.splits request_result.splits prod.splits)








section \<open>Registration\<close>

text \<open>The registry of the module binds each of the three classes to its handler.\<close>

lemma tool_runner_registry_eq:
  "tool_runner_registry =
     Inr [''object'' \<mapsto> tool_runner_fn, ''ListDialogs'' \<mapsto> list_dialogs_fn,
          ''ListMessages'' \<mapsto> list_messages_fn, ''SearchHashtags'' \<mapsto> search_hashtags_fn]"
  by (simp add: tool_runner_registry_def register_def singledispatch_def
        list_dialogs_fn_def list_messages_fn_def search_hashtags_fn_def)

text \<open>A function whose first parameter is annotated is bound to that class, whatever was bound before.\<close>

lemma register_annotated:
  assumes "fn_annotation func = Some cls"
  shows "register reg func = Inr (reg(cls \<mapsto> func))"
  using assms by (simp add: register_def)

text \<open>
  C3, as amended. Registering a handler for a class that is already bound does
  not fail: the new handler replaces the existing binding and every other
  binding is kept. The module itself registers its three handlers for three
  different classes, so that no registration of the module replaces another.
\<close>

theorem register_replaces:
  "(fn_annotation func = Some cls \<and> reg cls = Some old \<longrightarrow>
      \<not> isl (register reg func) \<and>
      projr (register reg func) cls = Some func \<and>
      (\<forall>c. c \<noteq> cls \<longrightarrow> projr (register reg func) c = reg c)) \<and>
   \<not> isl tool_runner_registry \<and>
   map (projr tool_runner_registry) [''ListDialogs'', ''ListMessages'', ''SearchHashtags''] =
     [Some list_dialogs_fn, Some list_messages_fn, Some search_hashtags_fn] \<and>
   distinct (map fn_annotation [list_dialogs_fn, list_messages_fn, search_hashtags_fn])"
proof -
  have "fn_annotation func = Some cls \<longrightarrow>
      \<not> isl (register reg func) \<and>
      projr (register reg func) cls = Some func \<and>
      (\<forall>c. c \<noteq> cls \<longrightarrow> projr (register reg func) c = reg c)"
    by (simp add: register_annotated)
  moreover have "\<not> isl tool_runner_registry"
    by (simp add: tool_runner_registry_eq)
  moreover have "map (projr tool_runner_registry) [''ListDialogs'', ''ListMessages'', ''SearchHashtags''] =
     [Some list_dialogs_fn, Some list_messages_fn, Some search_hashtags_fn]"
    by (simp add: tool_runner_registry_eq)
  moreover have "distinct (map fn_annotation [list_dialogs_fn, list_messages_fn, search_hashtags_fn])"
    by (simp add: list_dialogs_fn_def list_messages_fn_def search_hashtags_fn_def)
  ultimately show ?thesis by blast
qed

text \<open>
  C3, as stated, fails: after the import of the module, a second function
  annotated with \<^verbatim>\<open>ListDialogs\<close> is registered without a failure and takes the
  place of \<^verbatim>\<open>list_dialogs\<close>.
\<close>

theorem register_overwrites:
  "\<not> isl tool_runner_registry \<and>
   projr tool_runner_registry ''ListDialogs'' = Some list_dialogs_fn \<and>
   \<not> isl (register (projr tool_runner_registry)
            \<lparr>fn_name = ''list_dialogs_again'', fn_annotation = Some ''ListDialogs''\<rparr>) \<and>
   projr (register (projr tool_runner_registry)
            \<lparr>fn_name = ''list_dialogs_again'', fn_annotation = Some ''ListDialogs''\<rparr>) ''ListDialogs'' =
     Some \<lparr>fn_name = ''list_dialogs_again'', fn_annotation = Some ''ListDialogs''\<rparr> \<and>
   \<lparr>fn_name = ''list_dialogs_again'', fn_annotation = Some ''ListDialogs''\<rparr> \<noteq> list_dialogs_fn"
  by (simp add: tool_runner_registry_eq register_def list_dialogs_fn_def)

text \<open>The amended C3 on the registry of the module.\<close>

theorem register_replaces_witness:
  "fn_annotation \<lparr>fn_name = ''list_dialogs_again'', fn_annotation = Some ''ListDialogs''\<rparr> = Some ''ListDialogs'' \<and>
   projr tool_runner_registry ''ListDialogs'' = Some list_dialogs_fn \<and>
   \<not> isl (register (projr tool_runner_registry)
            \<lparr>fn_name = ''list_dialogs_again'', fn_annotation = Some ''ListDialogs''\<rparr>) \<and>
   projr (register (projr tool_runner_registry)
            \<lparr>fn_name = ''list_dialogs_again'', fn_annotation = Some ''ListDialogs''\<rparr>) ''ListDialogs'' =
     Some \<lparr>fn_name = ''list_dialogs_again'', fn_annotation = Some ''ListDialogs''\<rparr> \<and>
   projr (register (projr tool_runner_registry)
            \<lparr>fn_name = ''list_dialogs_again'', fn_annotation = Some ''ListDialogs''\<rparr>) ''ListMessages'' =
     Some list_messages_fn"
proof -
  have a: "fn_annotation \<lparr>fn_name = ''list_dialogs_again'', fn_annotation = Some ''ListDialogs''\<rparr> = Some ''ListDialogs''"
    by simp
  have b: "projr tool_runner_registry ''ListDialogs'' = Some list_dialogs_fn"
    by (simp add: tool_runner_registry_eq)
  have c: "projr tool_runner_registry ''ListMessages'' = Some list_messages_fn"
    by (simp add: tool_runner_registry_eq)
  from register_replaces [of "\<lparr>fn_name = ''list_dialogs_again'', fn_annotation = Some ''ListDialogs''\<rparr>"
      "''ListDialogs''" "projr tool_runner_registry" list_dialogs_fn] a b c
  show ?thesis by simp
qed

section \<open>Tool descriptors\<close>

text \<open>
  C7, as amended. For every class the descriptor has the name of the class as
  name, the doc text of the class as description, whatever it is, and the fields
  of the class as schema: an empty or missing doc string becomes the description
  and nothing is rejected.
\<close>

theorem tool_description_projection:
  "name (tool_description args) = cls_name args \<and>
   description (tool_description args) = cls_doc args \<and>
   inputSchema (tool_description args) = cls_fields args"
  by (simp add: tool_description_def model_json_schema_def)

text \<open>
  C7, as stated, fails: a class with an empty doc string gets a descriptor, with
  the empty description.
\<close>

theorem tool_description_empty_doc:
  "tool_description \<lparr>cls_name = ''Undocumented'', cls_doc = Some [], cls_fields = []\<rparr> =
     \<lparr>name = ''Undocumented'', description = Some [], inputSchema = []\<rparr>"
  by (simp add: tool_description_def model_json_schema_def)

section \<open>Credentials\<close>

text \<open>The handler of SearchHashtags reads neither \<^verbatim>\<open>api_id\<close> nor \<^verbatim>\<open>api_hash\<close>.\<close>

lemma export_results_ignores_credentials:
  "export_results tg (a\<lparr>sh_api_id := i, sh_api_hash := h\<rparr>) ms w = export_results tg a ms w"
  by (simp add: export_results_def split: option.splits)

lemma success_text_ignores_credentials:
  "success_text (a\<lparr>sh_api_id := i, sh_api_hash := h\<rparr>) n = success_text a n"
  by (simp add: success_text_def)

lemma search_hashtags_try_ignores_credentials:
  "search_hashtags_try tg (a\<lparr>sh_api_id := i, sh_api_hash := h\<rparr>) w = search_hashtags_try tg a w"
  by (simp add: search_hashtags_try_def export_results_ignores_credentials
        success_text_ignores_credentials Let_def
      split: option.splits sum.splits prod.splits)

text \<open>
  C8, as amended. Of the three classes registered with the dispatcher,
  ListDialogs and ListMessages declare no credential field; SearchHashtags
  declares the two fields \<^verbatim>\<open>api_id\<close> and \<^verbatim>\<open>api_hash\<close>, both without default
  and so required, and its handler ignores the value of both.
\<close>

theorem credential_fields_of_tools:
  "map credential_fields registered_classes = [[], [], [''api_id'', ''api_hash'']] \<and>
   map f_default (filter (\<lambda>f. credential_field (f_name f)) (cls_fields SearchHashtags)) = [None, None] \<and>
   map (\<lambda>c. projr tool_runner_registry (cls_name c)) registered_classes =
     [Some list_dialogs_fn, Some list_messages_fn, Some search_hashtags_fn] \<and>
   search_hashtags tg (a\<lparr>sh_api_id := i, sh_api_hash := h\<rparr>) w = search_hashtags tg a w"
  by (simp add: search_hashtags_def search_hashtags_try_ignores_credentials
        registered_classes_def credential_fields_def credential_field_def
        ListDialogs_def ListMessages_def SearchHashtags_def tool_runner_registry_eq)

text \<open>
  C8, as stated, fails: SearchHashtags is registered and its schema holds the
  fields \<^verbatim>\<open>api_id\<close> and \<^verbatim>\<open>api_hash\<close>.
\<close>

theorem SearchHashtags_has_credentials:
  "SearchHashtags \<in> set registered_classes \<and>
   projr tool_runner_registry (cls_name SearchHashtags) = Some search_hashtags_fn \<and>
   credential_fields SearchHashtags = [''api_id'', ''api_hash'']"
  by (simp add: registered_classes_def credential_fields_def credential_field_def
        SearchHashtags_def tool_runner_registry_eq)

section \<open>tool\_args\<close>

text \<open>
  C9. \<^verbatim>\<open>tool_args\<close> resolves the name of the tool in the whole namespace of the
  module: whatever object the name is bound to is called with the arguments,
  and a name that is not bound raises \<^verbatim>\<open>KeyError\<close>. In the namespace of the
  module this reaches \<^verbatim>\<open>ToolArgs\<close>, which is no registered class, and
  \<^verbatim>\<open>logger\<close>, which is no class.
\<close>

theorem tool_args_whole_namespace:
  "(ns (name tool) = Some obj \<longrightarrow> tool_args call ns tool a = call obj a) \<and>
   (ns (name tool) = None \<longrightarrow> tool_args call ns tool a = Inl (KeyError (name tool))) \<and>
   tool_args call (map_of module_dict) (tool_description ToolArgs) a = call (ClassObject ''ToolArgs'') a \<and>
   ''ToolArgs'' \<notin> set (map cls_name registered_classes) \<and>
   tool_args call (map_of module_dict) \<lparr>name = ''logger'', description = None, inputSchema = []\<rparr> a =
     call (OtherObject ''Logger'') a"
  by (simp add: tool_args_def module_dict_def tool_description_def ToolArgs_def
        registered_classes_def ListDialogs_def ListMessages_def SearchHashtags_def)

text \<open>C9 on the namespace of the module: a bound name and a name that is not bound.\<close>

theorem tool_args_whole_namespace_witness:
  "map_of module_dict (name (tool_description ListDialogs)) = Some (ClassObject ''ListDialogs'') \<and>
   tool_args (\<lambda>obj a. Inr (obj, a)) (map_of module_dict) (tool_description ListDialogs) [PBool True] =
     Inr (ClassObject ''ListDialogs'', [PBool True]) \<and>
   map_of module_dict (name \<lparr>name = ''SendMessage'', description = None, inputSchema = []\<rparr>) = None \<and>
   tool_args (\<lambda>obj a. Inr (obj, a)) (map_of module_dict)
       \<lparr>name = ''SendMessage'', description = None, inputSchema = []\<rparr> [PBool True] =
     Inl (KeyError ''SendMessage'')"
proof -
  have a: "map_of module_dict (name (tool_description ListDialogs)) = Some (ClassObject ''ListDialogs'')"
    by (simp add: module_dict_def tool_description_def ListDialogs_def)
  have b: "map_of module_dict (name \<lparr>name = ''SendMessage'', description = None, inputSchema = []\<rparr>) = None"
    by (simp add: module_dict_def)
  from tool_args_whole_namespace [of "map_of module_dict" "tool_description ListDialogs"
        "ClassObject ''ListDialogs''" "\<lambda>obj a. Inr (obj, a)" "[PBool True]"]
      tool_args_whole_namespace [of "map_of module_dict"
        "\<lparr>name = ''SendMessage'', description = None, inputSchema = []\<rparr>" _
        "\<lambda>obj a. Inr (obj, a)" "[PBool True]"] a b
  show ?thesis by simp
qed

section \<open>The fetch limit of list\_messages\<close>

text \<open>After a loop over a sequence that is not empty, the variable holds the last element.\<close>

lemma for_variable_snoc: "for_variable v (xs @ [x]) = Some x"
  by (induction xs arbitrary: v) simp_all

text \<open>The two calls the remote service receives when the keyword arguments can be built.\<close>

lemma list_messages_calls:
  assumes "create_client tg = None"
    and "GetPeerDialogsRequest tg [lm_dialog_id a] = Inr (PeerDialogs ds pm)"
    and "iter_messages_args a (for_variable None ds) = Inr kw"
  shows "calls (snd (list_messages tg a w)) =
           calls w @ [GetPeerDialogsCall [lm_dialog_id a], IterMessagesCall kw]"
  using assms
  by (simp add: list_messages_def list_messages_block_def Let_def acquire_def release_def
        record_call_def split: prod.splits)

text \<open>With no dialog in the answer, an unread listing stops at the unassigned variable.\<close>

lemma list_messages_unbound:
  assumes "create_client tg = None"
    and "GetPeerDialogsRequest tg [lm_dialog_id a] = Inr (PeerDialogs [] pm)"
    and "lm_unread a"
  shows "(\<exists>m. fst (list_messages tg a w) = Inl (UnboundLocalError m)) \<and>
         calls (snd (list_messages tg a w)) = calls w @ [GetPeerDialogsCall [lm_dialog_id a]]"
  using assms
  by (simp add: list_messages_def list_messages_block_def iter_messages_args_def Let_def
        acquire_def release_def record_call_def)




text \<open>
  C10. The unread count is read from the variable of the loop over
  \<^verbatim>\<open>result.dialogs\<close>, which holds the last element after the loop. With
  \<^verbatim>\<open>args.unread\<close> set and no dialog in the answer, the handler raises
  \<^verbatim>\<open>UnboundLocalError\<close> before any message is asked for; with one dialog or
  more, the unread count of the last one bounds the limit, whatever its peer.
\<close>

theorem list_messages_loop_variable:
  "for_variable None ([] :: tl_dialog list) = None \<and>
   for_variable None (ds @ [d]) = Some d \<and>
   (create_client tg = None \<and> lm_unread a \<and>
    GetPeerDialogsRequest tg [lm_dialog_id a] = Inr (PeerDialogs [] pm) \<longrightarrow>
      (\<exists>m. fst (list_messages tg a w) = Inl (UnboundLocalError m)) \<and>
      calls (snd (list_messages tg a w)) = calls w @ [GetPeerDialogsCall [lm_dialog_id a]]) \<and>
   (create_client tg' = None \<and> lm_unread a' \<and>
    GetPeerDialogsRequest tg' [lm_dialog_id a'] = Inr (PeerDialogs (ds @ [d]) pm') \<longrightarrow>
      calls (snd (list_messages tg' a' w')) =
        calls w' @
        [GetPeerDialogsCall [lm_dialog_id a'],
         IterMessagesCall
           [(''entity'', PInt (lm_dialog_id a')), (''reverse'', PBool False),
            (''limit'', PInt (min (tl_unread_count d) (lm_limit a')))]])"
proof -
  have "iter_messages_args a' (for_variable None (ds @ [d])) =
          Inr [(''entity'', PInt (lm_dialog_id a')), (''reverse'', PBool False),
               (''limit'', PInt (min (tl_unread_count d) (lm_limit a')))]"
    if "lm_unread a'"
    using that by (simp add: iter_messages_args_def for_variable_snoc)
  then show ?thesis
    using list_messages_unbound [of tg a pm w]
      list_messages_calls [of tg' a' "ds @ [d]" pm' _ w']
    by (simp add: for_variable_snoc)
qed

text \<open>
  C10 on the test doubles: an answer without dialogs, and an answer where dialog
  42 (3 unread) is followed by dialog 7 (1 unread), which gives the limit 1.
\<close>

theorem list_messages_loop_variable_witness:
  "create_client double_no_dialogs = None \<and> lm_unread args_ListMessages \<and>
   GetPeerDialogsRequest double_no_dialogs [lm_dialog_id args_ListMessages] = Inr (PeerDialogs [] []) \<and>
   (\<exists>m. fst (list_messages double_no_dialogs args_ListMessages world0) = Inl (UnboundLocalError m)) \<and>
   calls (snd (list_messages double_no_dialogs args_ListMessages world0)) = [GetPeerDialogsCall [42]] \<and>
   create_client double_two_dialogs = None \<and>
   GetPeerDialogsRequest double_two_dialogs [lm_dialog_id args_ListMessages] =
     Inr (PeerDialogs ([\<lparr>tl_peer = 42, tl_unread_count = 3\<rparr>] @ [\<lparr>tl_peer = 7, tl_unread_count = 1\<rparr>]) []) \<and>
   calls (snd (list_messages double_two_dialogs args_ListMessages world0)) =
     [GetPeerDialogsCall [42],
      IterMessagesCall [(''entity'', PInt 42), (''reverse'', PBool False), (''limit'', PInt 1)]]"
proof -
  have c: "create_client double_no_dialogs = None" "create_client double_two_dialogs = None"
    by (simp_all add: double_no_dialogs_def double_two_dialogs_def double_def)
  have u: "lm_unread args_ListMessages"
    by (simp add: args_ListMessages_def)
  have g: "GetPeerDialogsRequest double_no_dialogs [lm_dialog_id args_ListMessages] = Inr (PeerDialogs [] [])"
    by (simp add: double_no_dialogs_def)
  have g': "GetPeerDialogsRequest double_two_dialogs [lm_dialog_id args_ListMessages] =
     Inr (PeerDialogs ([\<lparr>tl_peer = 42, tl_unread_count = 3\<rparr>] @ [\<lparr>tl_peer = 7, tl_unread_count = 1\<rparr>]) [])"
    by (simp add: double_two_dialogs_def)
  from list_messages_loop_variable [of "[\<lparr>tl_peer = 42, tl_unread_count = 3\<rparr>]"
      "\<lparr>tl_peer = 7, tl_unread_count = 1\<rparr>" double_no_dialogs args_ListMessages "[]" world0
      double_two_dialogs args_ListMessages "[]" world0] c u g g'
  show ?thesis
    by (simp add: args_ListMessages_def world0_def)
qed

section \<open>What the handlers return\<close>

text \<open>
  When the constructor of the library builds the item for the type \<^verbatim>\<open>text\<close>, each
  loop appends one item per element it keeps, in the order of the elements.
\<close>

lemma list_dialogs_loop_items:
  assumes "\<And>s. TextContent tg (Some ''text'') s = Inr \<lparr>tc_type = ''text'', tc_text = s\<rparr>"
  shows "list_dialogs_loop tg a ds response =
           Inr (response @
                map (\<lambda>d. \<lparr>tc_type = ''text'', tc_text = dialog_line d\<rparr>)
                  (filter (\<lambda>d. \<not> (ld_unread a \<and> d_unread_count d = 0)) ds))"
  by (induction ds arbitrary: response) (auto simp: assms)

lemma list_messages_loop_items:
  assumes "\<And>s. TextContent tg (Some ''text'') s = Inr \<lparr>tc_type = ''text'', tc_text = s\<rparr>"
  shows "list_messages_loop tg ms response =
           Inr (response @
                map (\<lambda>m. \<lparr>tc_type = ''text'', tc_text = the (m_text m)\<rparr>)
                  (filter (\<lambda>m. m_is_Message m \<and> truthy (m_text m)) ms))"
  by (induction ms arbitrary: response) (auto simp: assms)

text \<open>The line of a dialog shows its name, id, unread count and mention count.\<close>

lemma dialog_line_contains:
  "sublist (d_name d) (dialog_line d) \<and> sublist (str_int (d_id d)) (dialog_line d) \<and>
   sublist (str_int (d_unread_count d)) (dialog_line d) \<and>
   sublist (str_int (d_unread_mentions_count d)) (dialog_line d)"
proof -
  have "dialog_line d = (''name='' @ [CHR 0x27]) @ d_name d @
      ([CHR 0x27] @ '' id='' @ str_int (d_id d) @ '' unread='' @ str_int (d_unread_count d) @
       '' mentions='' @ str_int (d_unread_mentions_count d))"
    by (simp add: dialog_line_def)
  then have 1: "sublist (d_name d) (dialog_line d)"
    unfolding sublist_def by blast
  have "dialog_line d = (''name='' @ [CHR 0x27] @ d_name d @ [CHR 0x27] @ '' id='') @ str_int (d_id d) @
      ('' unread='' @ str_int (d_unread_count d) @
       '' mentions='' @ str_int (d_unread_mentions_count d))"
    by (simp add: dialog_line_def)
  then have 2: "sublist (str_int (d_id d)) (dialog_line d)"
    unfolding sublist_def by blast
  have "dialog_line d = (''name='' @ [CHR 0x27] @ d_name d @ [CHR 0x27] @ '' id='' @ str_int (d_id d) @
      '' unread='') @ str_int (d_unread_count d) @
       ('' mentions='' @ str_int (d_unread_mentions_count d))"
    by (simp add: dialog_line_def)
  then have 3: "sublist (str_int (d_unread_count d)) (dialog_line d)"
    unfolding sublist_def by blast
  have "dialog_line d = (''name='' @ [CHR 0x27] @ d_name d @ [CHR 0x27] @ '' id='' @ str_int (d_id d) @
      '' unread='' @ str_int (d_unread_count d) @ '' mentions='') @
       str_int (d_unread_mentions_count d) @ []"
    by (simp add: dialog_line_def)
  then have 4: "sublist (str_int (d_unread_mentions_count d)) (dialog_line d)"
    unfolding sublist_def by blast
  from 1 2 3 4 show ?thesis by simp
qed

text \<open>
  C6. With \<^verbatim>\<open>unread\<close> set, \<^verbatim>\<open>list_dialogs\<close> returns one text line per dialog
  with a positive unread count, in the order of the iteration, and each line
  contains the name, the id, the unread count and the mention count of its
  dialog. Unread counts are counts: none is negative.
\<close>

theorem list_dialogs_unread:
  assumes "create_client tg = None"
    and "iter_dialogs tg (ld_archived a) (ld_ignore_pinned a) = (ds, None)"
    and "\<forall>s. TextContent tg (Some ''text'') s = Inr \<lparr>tc_type = ''text'', tc_text = s\<rparr>"
    and "ld_unread a"
    and "\<forall>d \<in> set ds. 0 \<le> d_unread_count d"
  shows "fst (list_dialogs tg a w) =
           Inr (map (\<lambda>d. \<lparr>tc_type = ''text'', tc_text = dialog_line d\<rparr>)
                  (filter (\<lambda>d. 0 < d_unread_count d) ds)) \<and>
         (\<forall>d. sublist (d_name d) (dialog_line d) \<and>
              sublist (str_int (d_id d)) (dialog_line d) \<and>
              sublist (str_int (d_unread_count d)) (dialog_line d) \<and>
              sublist (str_int (d_unread_mentions_count d)) (dialog_line d))"
proof -
  have f: "filter (\<lambda>d. \<not> (ld_unread a \<and> d_unread_count d = 0)) ds =
           filter (\<lambda>d. 0 < d_unread_count d) ds"
    using assms(4,5) by (intro filter_cong) auto
  have "list_dialogs_loop tg a ds [] =
          Inr (map (\<lambda>d. \<lparr>tc_type = ''text'', tc_text = dialog_line d\<rparr>)
                 (filter (\<lambda>d. 0 < d_unread_count d) ds))"
    using list_dialogs_loop_items [of tg a ds "[]"] assms(3) f by simp
  with assms(1,2) have "fst (list_dialogs tg a w) =
           Inr (map (\<lambda>d. \<lparr>tc_type = ''text'', tc_text = dialog_line d\<rparr>)
                  (filter (\<lambda>d. 0 < d_unread_count d) ds))"
    by (simp add: list_dialogs_def after_iteration_def Let_def)
  with dialog_line_contains show ?thesis by blast
qed

text \<open>
  C5. \<^verbatim>\<open>list_messages\<close> returns one text item per message that is a
  \<^verbatim>\<open>Message\<close> with a text, carrying that text, in the order in which the
  remote service delivered the messages; the other messages are dropped.
\<close>

theorem list_messages_text_items:
  assumes "create_client tg = None"
    and "GetPeerDialogsRequest tg [lm_dialog_id a] = Inr (PeerDialogs ds pm)"
    and "iter_messages_args a (for_variable None ds) = Inr kw"
    and "iter_messages tg kw = (ms, None)"
    and "\<forall>s. TextContent tg (Some ''text'') s = Inr \<lparr>tc_type = ''text'', tc_text = s\<rparr>"
  shows "fst (list_messages tg a w) =
           Inr (map (\<lambda>m. \<lparr>tc_type = ''text'', tc_text = the (m_text m)\<rparr>)
                  (filter (\<lambda>m. m_is_Message m \<and> truthy (m_text m)) ms))"
proof -
  have "list_messages_loop tg ms [] =
          Inr (map (\<lambda>m. \<lparr>tc_type = ''text'', tc_text = the (m_text m)\<rparr>)
                 (filter (\<lambda>m. m_is_Message m \<and> truthy (m_text m)) ms))"
    using list_messages_loop_items [of tg ms "[]"] assms(5) by simp
  with assms(1-4) show ?thesis
    by (simp add: list_messages_def list_messages_block_def after_iteration_def Let_def
          split: prod.splits)
qed


text \<open>C6 on the test double: of the unread counts 0, 5 and 2, the last two give a line.\<close>

theorem list_dialogs_unread_witness:
  "create_client double = None \<and>
   iter_dialogs double (ld_archived args_ListDialogs) (ld_ignore_pinned args_ListDialogs) =
     (double_dialogs, None) \<and>
   ld_unread args_ListDialogs \<and>
   map d_unread_count double_dialogs = [0, 5, 2] \<and>
   fst (list_dialogs double args_ListDialogs world0) =
     Inr [\<lparr>tc_type = ''text'',
           tc_text = ''name='' @ [CHR 0x27] @ ''team'' @ [CHR 0x27] @ '' id=-1001 unread=5 mentions=1''\<rparr>,
          \<lparr>tc_type = ''text'',
           tc_text = ''name='' @ [CHR 0x27] @ ''bob'' @ [CHR 0x27] @ '' id=42 unread=2 mentions=0''\<rparr>]"
proof -
  have c: "create_client double = None"
    by (simp add: double_def)
  have i: "iter_dialogs double (ld_archived args_ListDialogs) (ld_ignore_pinned args_ListDialogs) =
     (double_dialogs, None)"
    by (simp add: double_def)
  have t: "\<forall>s. TextContent double (Some ''text'') s = Inr \<lparr>tc_type = ''text'', tc_text = s\<rparr>"
    by (simp add: double_def mcp_TextContent_def)
  have u: "ld_unread args_ListDialogs"
    by (simp add: args_ListDialogs_def)
  have n: "\<forall>d \<in> set double_dialogs. 0 \<le> d_unread_count d"
    by (simp add: double_dialogs_def)
  from list_dialogs_unread [OF c i t u n, of world0, THEN conjunct1] c i u
  show ?thesis
    by (simp add: double_dialogs_def dialog_line_def str_int_def str_nat.simps digit_char_def)
qed

text \<open>
  C5 on the test double: of the four messages delivered, the first and the last
  are texts; the answer holds both, the newer first.
\<close>

theorem list_messages_text_items_witness:
  "create_client double = None \<and>
   GetPeerDialogsRequest double [lm_dialog_id args_ListMessages_all] =
     Inr (PeerDialogs [\<lparr>tl_peer = 42, tl_unread_count = 3\<rparr>] []) \<and>
   iter_messages_args args_ListMessages_all (for_variable None [\<lparr>tl_peer = 42, tl_unread_count = 3\<rparr>]) =
     Inr [(''entity'', PInt 42), (''reverse'', PBool False), (''limit'', PInt 100)] \<and>
   iter_messages double [(''entity'', PInt 42), (''reverse'', PBool False), (''limit'', PInt 100)] =
     (double_messages, None) \<and>
   map m_text double_messages = [Some ''hello #intro'', None, Some ''joined'', Some ''first''] \<and>
   map m_is_Message double_messages = [True, True, False, True] \<and>
   fst (list_messages double args_ListMessages_all world0) =
     Inr [\<lparr>tc_type = ''text'', tc_text = ''hello #intro''\<rparr>,
          \<lparr>tc_type = ''text'', tc_text = ''first''\<rparr>]"
proof -
  have c: "create_client double = None"
    by (simp add: double_def)
  have g: "GetPeerDialogsRequest double [lm_dialog_id args_ListMessages_all] =
     Inr (PeerDialogs [\<lparr>tl_peer = 42, tl_unread_count = 3\<rparr>] [])"
    by (simp add: double_def args_ListMessages_all_def)
  have k: "iter_messages_args args_ListMessages_all (for_variable None [\<lparr>tl_peer = 42, tl_unread_count = 3\<rparr>]) =
     Inr [(''entity'', PInt 42), (''reverse'', PBool False), (''limit'', PInt 100)]"
    by (simp add: iter_messages_args_def args_ListMessages_all_def)
  have m: "iter_messages double [(''entity'', PInt 42), (''reverse'', PBool False), (''limit'', PInt 100)] =
     (double_messages, None)"
    by (simp add: double_def double_messages_def)
  have t: "\<forall>s. TextContent double (Some ''text'') s = Inr \<lparr>tc_type = ''text'', tc_text = s\<rparr>"
    by (simp add: double_def mcp_TextContent_def)
  from list_messages_text_items [OF c g k m t, of world0] c g k m
  show ?thesis
    by (simp add: double_messages_def truthy_def)
qed

end
